theory Spec2Isabelle
  imports Complex_Main
begin

section \<open>Weather data visualizer: the data pipeline of \<open>weather art.py\<close>\<close>

text \<open>
  The program is one class, \<open>WeatherDataVisualizer\<close>, and a \<open>main\<close> function.
  The model follows the source method by method.

  Numbers. Python and numpy compute with float64. A float is modelled by the real number
  it stands for: arithmetic is exact, rounding and overflow are not modelled. The one
  place where float arithmetic leaves the reals in this program is a division by zero,
  which numpy answers with \<open>nan\<close> or \<open>\<plusminus>inf\<close> and a warning (no exception); such a
  value is \<open>NonFinite\<close> below, and every operation the program applies to it afterwards
  (adding or multiplying a finite number, \<open>sin\<close>) keeps it non-finite.
\<close>

subsection \<open>Exceptions and floats\<close>

datatype error = ZeroDivisionError | IndexError | ValueError

datatype npfloat = Finite real | NonFinite

fun np_lift2 :: "(real \<Rightarrow> real \<Rightarrow> real) \<Rightarrow> npfloat \<Rightarrow> npfloat \<Rightarrow> npfloat" where
  "np_lift2 f (Finite a) (Finite b) = Finite (f a b)"
| "np_lift2 f _ _ = NonFinite"

definition np_add :: "npfloat \<Rightarrow> npfloat \<Rightarrow> npfloat" where
  "np_add = np_lift2 (+)"

definition np_sub :: "npfloat \<Rightarrow> npfloat \<Rightarrow> npfloat" where
  "np_sub = np_lift2 (-)"

definition np_mul :: "npfloat \<Rightarrow> npfloat \<Rightarrow> npfloat" where
  "np_mul = np_lift2 (*)"

text \<open>
  float64 true division. A zero divisor gives \<open>nan\<close> or \<open>\<plusminus>inf\<close>. A non-finite divisor
  only arises in this program as the \<open>nan\<close> that \<open>min\<close>/\<open>max\<close> of an empty series
  return, and \<open>x / nan\<close> is \<open>nan\<close>.
\<close>

fun np_true_divide :: "npfloat \<Rightarrow> npfloat \<Rightarrow> npfloat" where
  "np_true_divide (Finite a) (Finite b) = (if b = 0 then NonFinite else Finite (a / b))"
| "np_true_divide _ _ = NonFinite"

fun np_sin :: "npfloat \<Rightarrow> npfloat" where
  "np_sin (Finite a) = Finite (sin a)"
| "np_sin NonFinite = NonFinite"

subsection \<open>The random stream\<close>

text \<open>
  \<open>np.random.normal\<close> reads the global generator. Its state is the stream of standard
  normal draws still to come (what a seed fixes); \<open>normal loc scale n\<close> takes the
  next \<open>n\<close> draws, returns \<open>loc + scale * draw\<close> for each and the rest of the
  stream. numpy raises \<open>ValueError\<close> for a negative scale.
\<close>

type_synonym rng = "nat \<Rightarrow> real"

definition normal :: "real \<Rightarrow> real \<Rightarrow> nat \<Rightarrow> rng \<Rightarrow> error + (real list \<times> rng)" where
  "normal loc scale n s =
     (if scale < 0 then Inl ValueError
      else Inr (map (\<lambda>k. loc + scale * s k) [0..<n], \<lambda>k. s (k + n)))"

subsection \<open>Arrays, series and the data frame\<close>

text \<open>\<open>np.linspace start stop num\<close>: \<open>num\<close> evenly spaced samples, both ends included.\<close>

definition linspace :: "real \<Rightarrow> real \<Rightarrow> nat \<Rightarrow> real list" where
  "linspace start stop num =
     (let step = (if 1 < num then (stop - start) / real (num - 1) else stop - start)
      in map (\<lambda>i. start + real i * step) [0..<num])"

text \<open>
  One row of the frame. The \<open>date\<close> column holds the strings \<open>strftime('%Y-%m-%d')\<close>
  prints; a date is modelled by its day number, the formatting is the library's.
\<close>

record reading =
  date :: int
  temperature :: real
  humidity :: real
  wind_speed :: real

type_synonym dataframe = "reading list"

text \<open>\<open>pd.DataFrame\<close> of a dict of columns: the columns must have one length.\<close>

definition DataFrame :: "int list \<Rightarrow> real list \<Rightarrow> real list \<Rightarrow> real list \<Rightarrow> error + dataframe" where
  "DataFrame ds ts hs ws =
     (if length ts = length ds \<and> length hs = length ds \<and> length ws = length ds
      then Inr (map (\<lambda>(d, t, h, w). \<lparr>date = d, temperature = t, humidity = h, wind_speed = w\<rparr>)
                  (zip ds (zip ts (zip hs ws))))
      else Inl ValueError)"

text \<open>\<open>series.iloc[i]\<close>: positional, a negative position counts from the end.\<close>

definition iloc :: "'a list \<Rightarrow> int \<Rightarrow> error + 'a" where
  "iloc series i =
     (if 0 \<le> i \<and> i < int (length series) then Inr (series ! nat i)
      else if i < 0 \<and> - int (length series) \<le> i then Inr (series ! nat (int (length series) + i))
      else Inl IndexError)"

text \<open>\<open>series.min()\<close> and \<open>series.max()\<close>: \<open>nan\<close> on an empty series.\<close>

definition series_min :: "real list \<Rightarrow> npfloat" where
  "series_min series = (if series = [] then NonFinite else Finite (Min (set series)))"

definition series_max :: "real list \<Rightarrow> npfloat" where
  "series_max series = (if series = [] then NonFinite else Finite (Max (set series)))"

subsection \<open>\<open>generate_sample_data\<close>\<close>

text \<open>
  \<open>now\<close> is the day of \<open>datetime.now()\<close>, \<open>s\<close> the random stream. The three noise
  vectors are drawn in the order the dict literal evaluates them: temperature, humidity,
  wind speed. The \<open>print\<close> is not modelled.
\<close>

definition generate_sample_data :: "int \<Rightarrow> rng \<Rightarrow> error + (dataframe \<times> rng)" where
  "generate_sample_data now s =
     (let dates = map (\<lambda>i. now - int i) [0..<30];
          base_temp = map (\<lambda>t. 20 + 5 * sin t) (linspace 0 (2 * pi) 30);
          base_humidity = map (\<lambda>t. 60 + 15 * sin (t + 0.5)) (linspace 0 (2 * pi) 30);
          base_wind = map (\<lambda>t. 5 + 3 * sin (t + 1)) (linspace 0 (2 * pi) 30)
      in case normal 0 1 30 s of
           Inl e \<Rightarrow> Inl e
         | Inr (noise_t, s1) \<Rightarrow>
        (case normal 0 3 30 s1 of
           Inl e \<Rightarrow> Inl e
         | Inr (noise_h, s2) \<Rightarrow>
        (case normal 0 1 30 s2 of
           Inl e \<Rightarrow> Inl e
         | Inr (noise_w, s3) \<Rightarrow>
        (case DataFrame dates
                (map2 (+) base_temp noise_t)
                (map2 (+) base_humidity noise_h)
                (map abs (map2 (+) base_wind noise_w)) of
           Inl e \<Rightarrow> Inl e
         | Inr d \<Rightarrow> Inr (d, s3)))))"

subsection \<open>\<open>process_data\<close>\<close>

text \<open>
  \<open>frame % len(self.data)\<close> is Python's modulo (the sign of the divisor, as \<open>mod\<close> on
  \<open>int\<close>), and raises \<open>ZeroDivisionError\<close> on an empty frame.
\<close>

definition process_data :: "dataframe \<Rightarrow> int \<Rightarrow> error + (int \<times> npfloat \<times> real \<times> real)" where
  "process_data d frame =
     (if length d = 0 then Inl ZeroDivisionError
      else
        let idx = frame mod int (length d) in
        case iloc (map temperature d) idx of
          Inl e \<Rightarrow> Inl e
        | Inr temp \<Rightarrow>
        (case iloc (map humidity d) idx of
          Inl e \<Rightarrow> Inl e
        | Inr hum \<Rightarrow>
        (case iloc (map wind_speed d) idx of
          Inl e \<Rightarrow> Inl e
        | Inr wind \<Rightarrow>
          let temp_min = series_min (map temperature d);
              temp_max = series_max (map temperature d);
              frequency = np_add (Finite 0.5)
                            (np_true_divide (np_mul (Finite 1.5) (np_sub (Finite temp) temp_min))
                                            (np_sub temp_max temp_min));
              amplitude = 0.5 + 1.0 * hum / 100;
              complexity = 1 + wind / 5
          in Inr (idx, frequency, amplitude, complexity))))"

subsection \<open>\<open>generate_waveform\<close>\<close>

text \<open>\<open>int(x)\<close> on a float truncates towards zero; \<open>range(a, b)\<close> is \<open>a, ..., b - 1\<close>.\<close>

definition py_int :: "real \<Rightarrow> int" where
  "py_int x = (if 0 \<le> x then \<lfloor>x\<rfloor> else \<lceil>x\<rceil>)"

definition py_range :: "int \<Rightarrow> int \<Rightarrow> int list" where
  "py_range a b = [a..b - 1]"

text \<open>The three locals of the harmonic loop, as functions of the loop variable \<open>i\<close>.\<close>

definition harmonic_amp :: "real \<Rightarrow> int \<Rightarrow> real" where
  "harmonic_amp amplitude i = amplitude / real_of_int (i * 2)"

definition harmonic_freq :: "npfloat \<Rightarrow> int \<Rightarrow> npfloat" where
  "harmonic_freq frequency i = np_mul frequency (Finite (real_of_int i + 0.5))"

definition phase_shift :: "nat \<Rightarrow> int \<Rightarrow> real" where
  "phase_shift line_idx i = real line_idx * pi / real_of_int (i + 1)"

text \<open>The array \<open>harmonic_amp * np.sin(harmonic_freq * x + phase_shift)\<close> of one iteration.\<close>

definition harmonic :: "npfloat \<Rightarrow> real \<Rightarrow> nat \<Rightarrow> real list \<Rightarrow> int \<Rightarrow> npfloat list" where
  "harmonic frequency amplitude line_idx x i =
     map (\<lambda>xk. np_mul (Finite (harmonic_amp amplitude i))
                 (np_sin (np_add (np_mul (harmonic_freq frequency i) (Finite xk))
                                 (Finite (phase_shift line_idx i))))) x"

text \<open>The iterable of the \<open>for\<close> loop: \<open>range(1, int(complexity) + 1)\<close>.\<close>

definition harmonic_indices :: "real \<Rightarrow> int list" where
  "harmonic_indices complexity = py_range 1 (py_int complexity + 1)"

definition generate_waveform ::
  "npfloat \<Rightarrow> real \<Rightarrow> real \<Rightarrow> nat \<Rightarrow> rng \<Rightarrow> error + ((real list \<times> npfloat list) \<times> rng)" where
  "generate_waveform frequency amplitude complexity line_idx s =
     (let x = linspace 0 10 1000;
          y0 = map (\<lambda>xk. np_mul (Finite amplitude)
                          (np_sin (np_add (np_mul frequency (Finite xk))
                                          (Finite (real line_idx * pi / 2))))) x;
          y = foldl (\<lambda>y i. map2 np_add y (harmonic frequency amplitude line_idx x i))
                    y0 (harmonic_indices complexity)
      in case normal 0 (0.05 * complexity) (length x) s of
           Inl e \<Rightarrow> Inl e
         | Inr (noise, s') \<Rightarrow> Inr ((x, map2 np_add y (map Finite noise)), s'))"

subsection \<open>The visualizer object, \<open>__init__\<close> and \<open>update\<close>\<close>






text \<open>
  The local \<open>norm_temp\<close> of \<open>update\<close>: the temperature at \<open>idx\<close>, min-max
  scaled over the whole column.
\<close>

definition norm_temp :: "dataframe \<Rightarrow> int \<Rightarrow> error + npfloat" where
  "norm_temp d idx =
     (case iloc (map temperature d) idx of
        Inl e \<Rightarrow> Inl e
      | Inr temp \<Rightarrow>
          Inr (np_true_divide
                 (np_sub (Finite temp) (series_min (map temperature d)))
                 (np_sub (series_max (map temperature d)) (series_min (map temperature d)))))"



subsection \<open>\<open>main\<close>: exporting the animation\<close>

text \<open>
  \<open>main\<close> is modelled by its trace of effects. What each library call does is given by
  the environment: \<open>None\<close> when the call returns, \<open>Some e\<close> when it raises \<open>e\<close>.
  \<open>Exception m\<close> is an instance of Python's class \<open>Exception\<close> (what
  \<open>except Exception\<close> catches), \<open>BaseException m\<close> any other exception
  (\<open>KeyboardInterrupt\<close>, \<open>SystemExit\<close>). The result is the trace and the exception
  that leaves \<open>main\<close>, if one does.
\<close>

datatype exn = Exception string | BaseException string

datatype writer = FFMpeg | Pillow

datatype msg =
    SavingMP4 | SavedMP4 | CannotSaveMP4 string | TryingGIF | SavedGIF | CannotSaveGIF string
  | Showing

datatype event = Makedirs | Construct | CreateAnimation | Print msg | Save writer | Show

record environment =
  makedirs :: "exn option"
  construct :: "exn option"
  create_animation :: "exn option"
  save :: "writer \<Rightarrow> exn option"
  show_window :: "exn option"

type_synonym run = "event list \<times> exn option"

definition call :: "event \<Rightarrow> exn option \<Rightarrow> run" where
  "call ev outcome = ([ev], outcome)"

definition and_then :: "run \<Rightarrow> run \<Rightarrow> run" where
  "and_then p q = (case snd p of Some e \<Rightarrow> p | None \<Rightarrow> (fst p @ fst q, snd q))"

text \<open>The \<open>try\<close> statement of \<open>main\<close>, with the nested \<open>try\<close> in its handler.\<close>

definition try_save :: "environment \<Rightarrow> run" where
  "try_save env =
     (case save env FFMpeg of
        None \<Rightarrow> ([Print SavingMP4, Save FFMpeg, Print SavedMP4], None)
      | Some (BaseException m) \<Rightarrow> ([Print SavingMP4, Save FFMpeg], Some (BaseException m))
      | Some (Exception m) \<Rightarrow>
          (case save env Pillow of
             None \<Rightarrow>
               ([Print SavingMP4, Save FFMpeg, Print (CannotSaveMP4 m), Print TryingGIF,
                 Save Pillow, Print SavedGIF], None)
           | Some (BaseException m2) \<Rightarrow>
               ([Print SavingMP4, Save FFMpeg, Print (CannotSaveMP4 m), Print TryingGIF,
                 Save Pillow], Some (BaseException m2))
           | Some (Exception m2) \<Rightarrow>
               ([Print SavingMP4, Save FFMpeg, Print (CannotSaveMP4 m), Print TryingGIF,
                 Save Pillow, Print (CannotSaveGIF m2)], None)))"

definition main :: "environment \<Rightarrow> run" where
  "main env =
     and_then (call Makedirs (makedirs env))
    (and_then (call Construct (construct env))
    (and_then (call CreateAnimation (create_animation env))
    (and_then (try_save env)
    (and_then (call (Print Showing) None)
              (call Show (show_window env))))))"

section \<open>Properties\<close>

subsection \<open>Helper facts\<close>

lemma generate_sample_data_eq:
  "generate_sample_data now s =
     Inr (map (\<lambda>i. \<lparr>date = now - int i,
                     temperature = 20 + 5 * sin (real i * (2 * pi / 29)) + s i,
                     humidity = 60 + 15 * sin (real i * (2 * pi / 29) + 0.5) + 3 * s (i + 30),
                     wind_speed = \<bar>5 + 3 * sin (real i * (2 * pi / 29) + 1) + s (i + 60)\<bar>\<rparr>) [0..<30],
          \<lambda>k. s (k + 90))"
  unfolding generate_sample_data_def Let_def linspace_def
  by (simp add: normal_def DataFrame_def zip_map_map zip_same_conv_map comp_def add.assoc del: upt_Suc)

lemma generate_sample_data_length:
  "generate_sample_data now s = Inr (d, s') \<Longrightarrow> length d = 30"
  by (auto simp: generate_sample_data_eq)

lemma generate_sample_data_temperatures:
  "generate_sample_data now1 s = Inr (d1, s1) \<Longrightarrow> generate_sample_data now2 s = Inr (d2, s2) \<Longrightarrow>
     map temperature d1 = map temperature d2 \<and> map humidity d1 = map humidity d2
     \<and> map wind_speed d1 = map wind_speed d2 \<and> s1 = s2"
  by (auto simp: generate_sample_data_eq comp_def simp del: upt_Suc)

lemma process_data_eq:
  assumes "d \<noteq> []"
  shows "process_data d frame =
           Inr (frame mod int (length d),
                np_add (Finite 0.5)
                  (np_true_divide
                     (np_mul (Finite 1.5)
                        (np_sub (Finite (temperature (d ! nat (frame mod int (length d)))))
                                (series_min (map temperature d))))
                     (np_sub (series_max (map temperature d)) (series_min (map temperature d)))),
                0.5 + 1.0 * humidity (d ! nat (frame mod int (length d))) / 100,
                1 + wind_speed (d ! nat (frame mod int (length d))) / 5)"
proof -
  let ?idx = "frame mod int (length d)"
  from assms have pos: "0 < int (length d)" by simp
  then have lo: "0 \<le> ?idx" and hi: "?idx < int (length d)" by simp_all
  then have n: "nat ?idx < length d" by linarith
  show ?thesis
    using assms lo hi n by (simp add: process_data_def Let_def iloc_def)
qed

subsection \<open>The frame mapper\<close>

text \<open>
  C1. On a generated series \<open>d\<close> (30 readings) and for every frame counter,
  \<open>process_data\<close> returns the index \<open>frame mod 30\<close> and, with \<open>r\<close> the reading at
  that index and \<open>temp_min\<close>, \<open>temp_max\<close> the least and greatest temperature of the
  whole series: frequency \<open>0.5 + 1.5 * (temp - temp_min) / (temp_max - temp_min)\<close>,
  amplitude \<open>0.5 + 1.0 * humidity / 100\<close> and complexity \<open>1 + wind / 5\<close>. When
  \<open>temp_max = temp_min\<close> the float quotient is not a finite number, and neither is the
  frequency.
\<close>

theorem process_data_formulas:
  assumes "generate_sample_data now s = Inr (d, s')"
  shows "let r = d ! nat (frame mod 30);
             temp_min = Min (set (map temperature d));
             temp_max = Max (set (map temperature d))
         in process_data d frame =
              Inr (frame mod 30,
                   (if temp_max - temp_min = 0 then NonFinite
                    else Finite (0.5 + 1.5 * ((temperature r - temp_min) / (temp_max - temp_min)))),
                   0.5 + 1.0 * (humidity r / 100),
                   1 + wind_speed r / 5)"
proof -
  from assms have len: "length d = 30" by (rule generate_sample_data_length)
  then have ne: "d \<noteq> []" by auto
  show ?thesis
    using ne len
    by (simp add: process_data_eq Let_def series_min_def series_max_def np_add_def np_sub_def np_mul_def)
qed

theorem process_data_formulas_witness:
  "\<exists>d s'. generate_sample_data 0 (\<lambda>k. 0) = Inr (d, s') \<and>
     process_data d 31 =
       Inr (1,
            (if Max (set (map temperature d)) - Min (set (map temperature d)) = 0 then NonFinite
             else Finite (0.5 + 1.5 * ((temperature (d ! 1) - Min (set (map temperature d)))
                                        / (Max (set (map temperature d)) - Min (set (map temperature d)))))),
            0.5 + 1.0 * (humidity (d ! 1) / 100),
            1 + wind_speed (d ! 1) / 5)"
proof -
  obtain d s' where g: "generate_sample_data 0 (\<lambda>k. 0) = Inr (d, s')"
    by (simp add: generate_sample_data_eq)
  from process_data_formulas [OF g, of 31] g show ?thesis
    by (auto simp: Let_def)
qed

text \<open>
  C2. Whatever the clock and the random stream, \<open>generate_sample_data\<close> returns a
  series of exactly 30 readings; for every frame counter \<open>frame \<ge> 0\<close> the index
  \<open>process_data\<close> selects with is \<open>frame mod 30\<close>, it lies in \<open>[0, 30)\<close>, and the
  three \<open>iloc\<close> reads at it return the reading's fields (no \<open>IndexError\<close>).
\<close>

theorem series_length_and_index:
  "\<exists>d s'. generate_sample_data now s = Inr (d, s') \<and> length d = 30 \<and>
     (\<forall>frame. 0 \<le> frame \<longrightarrow>
        0 \<le> frame mod 30 \<and> frame mod 30 < 30 \<and>
        (\<exists>frequency amplitude complexity.
            process_data d frame = Inr (frame mod 30, frequency, amplitude, complexity)) \<and>
        iloc (map temperature d) (frame mod 30) = Inr (temperature (d ! nat (frame mod 30))) \<and>
        iloc (map humidity d) (frame mod 30) = Inr (humidity (d ! nat (frame mod 30))) \<and>
        iloc (map wind_speed d) (frame mod 30) = Inr (wind_speed (d ! nat (frame mod 30))))"
proof -
  obtain d s' where g: "generate_sample_data now s = Inr (d, s')"
    by (simp add: generate_sample_data_eq)
  then have len: "length d = 30" by (rule generate_sample_data_length)
  then have ne: "d \<noteq> []" by auto
  have "0 \<le> frame mod 30 \<and> frame mod 30 < 30 \<and>
        (\<exists>frequency amplitude complexity.
            process_data d frame = Inr (frame mod 30, frequency, amplitude, complexity)) \<and>
        iloc (map temperature d) (frame mod 30) = Inr (temperature (d ! nat (frame mod 30))) \<and>
        iloc (map humidity d) (frame mod 30) = Inr (humidity (d ! nat (frame mod 30))) \<and>
        iloc (map wind_speed d) (frame mod 30) = Inr (wind_speed (d ! nat (frame mod 30)))" for frame :: int
  proof -
    have b: "0 \<le> frame mod 30" "frame mod 30 < 30" by simp_all
    then have n: "nat (frame mod 30) < length d" using len by linarith
    show ?thesis using b n len process_data_eq [OF ne, of frame]
      by (simp add: iloc_def)
  qed
  with g len show ?thesis by blast
qed

theorem series_length_and_index_witness:
  "\<exists>d s'. generate_sample_data 0 (\<lambda>k. 0) = Inr (d, s') \<and> length d = 30 \<and>
     (\<exists>frequency amplitude complexity. process_data d 45 = Inr (15, frequency, amplitude, complexity)) \<and>
     iloc (map temperature d) 15 = Inr (temperature (d ! 15))"
proof -
  from series_length_and_index [of 0 "\<lambda>k. 0"]
  obtain d s' where g: "generate_sample_data 0 (\<lambda>k. 0) = Inr (d, s')" "length d = 30"
    and f: "\<forall>frame. 0 \<le> frame \<longrightarrow>
        0 \<le> frame mod 30 \<and> frame mod 30 < 30 \<and>
        (\<exists>frequency amplitude complexity.
            process_data d frame = Inr (frame mod 30, frequency, amplitude, complexity)) \<and>
        iloc (map temperature d) (frame mod 30) = Inr (temperature (d ! nat (frame mod 30))) \<and>
        iloc (map humidity d) (frame mod 30) = Inr (humidity (d ! nat (frame mod 30))) \<and>
        iloc (map wind_speed d) (frame mod 30) = Inr (wind_speed (d ! nat (frame mod 30)))"
    by blast
  from f [rule_format, of 45] have
    "(\<exists>frequency amplitude complexity. process_data d 45 = Inr (15, frequency, amplitude, complexity)) \<and>
     iloc (map temperature d) 15 = Inr (temperature (d ! 15))"
    by simp
  with g show ?thesis by blast
qed

subsection \<open>The generated series\<close>

text \<open>
  C4. Whatever the random stream, every reading of the generated series has
  \<open>wind_speed \<ge> 0\<close>: the noisy base wind goes through \<open>np.abs\<close>. The witness draws
  the noise \<open>-100\<close>, which makes the noisy base wind negative.
\<close>

theorem wind_speed_nonneg:
  "\<exists>d s'. generate_sample_data now s = Inr (d, s') \<and> (\<forall>r \<in> set d. 0 \<le> wind_speed r)"
  by (auto simp: generate_sample_data_eq simp del: upt_Suc)

theorem wind_speed_nonneg_witness:
  "\<exists>d s'. generate_sample_data 0 (\<lambda>k. - 100) = Inr (d, s') \<and> d \<noteq> [] \<and> hd d \<in> set d \<and> 0 \<le> wind_speed (hd d)
      \<and> wind_speed (hd d) = \<bar>5 + 3 * sin 1 - 100\<bar>"
proof -
  from wind_speed_nonneg [of 0 "\<lambda>k. - 100"]
  obtain d s' where g: "generate_sample_data 0 (\<lambda>k. - 100) = Inr (d, s')"
    and w: "\<forall>r \<in> set d. 0 \<le> wind_speed r" by blast
  from g have len: "length d = 30" by (rule generate_sample_data_length)
  then have ne: "d \<noteq> []" by auto
  then have m: "hd d \<in> set d" by simp
  from g have "hd d = d ! 0" using ne by (simp add: hd_conv_nth)
  moreover from g have "wind_speed (d ! 0) = \<bar>5 + 3 * sin 1 - 100\<bar>"
    by (auto simp: generate_sample_data_eq upt_conv_Cons simp del: upt_Suc)
  ultimately show ?thesis using g ne m w by auto
qed

text \<open>
  C9. Two runs on the same random stream (the same seed), started at any two times
  \<open>now1\<close>, \<open>now2\<close>, give frame 0 the same frequency, amplitude and complexity: the
  clock only reaches the \<open>date\<close> column. The witness runs a year apart: the two series
  differ, the three values do not.
\<close>

theorem same_seed_same_parameters:
  assumes "generate_sample_data now1 s = Inr (d1, s1)"
      and "generate_sample_data now2 s = Inr (d2, s2)"
  shows "\<exists>frequency amplitude complexity.
           process_data d1 0 = Inr (0, frequency, amplitude, complexity) \<and>
           process_data d2 0 = Inr (0, frequency, amplitude, complexity)"
proof -
  from assms have cols: "map temperature d1 = map temperature d2" "map humidity d1 = map humidity d2"
    "map wind_speed d1 = map wind_speed d2"
    using generate_sample_data_temperatures by blast+
  from assms have len: "length d1 = 30" "length d2 = 30" by (auto dest: generate_sample_data_length)
  then have ne: "d1 \<noteq> []" "d2 \<noteq> []" by auto
  have "temperature (d1 ! 0) = temperature (d2 ! 0)"
    using cols(1) len by (metis nth_map zero_less_numeral)
  moreover have "humidity (d1 ! 0) = humidity (d2 ! 0)"
    using cols(2) len by (metis nth_map zero_less_numeral)
  moreover have "wind_speed (d1 ! 0) = wind_speed (d2 ! 0)"
    using cols(3) len by (metis nth_map zero_less_numeral)
  ultimately show ?thesis
    using len cols by (simp add: process_data_eq [OF ne(1)] process_data_eq [OF ne(2)])
qed

theorem same_seed_same_parameters_witness:
  "\<exists>d1 s1 d2 s2 frequency amplitude complexity.
     generate_sample_data 0 (\<lambda>k. real k) = Inr (d1, s1) \<and>
     generate_sample_data 365 (\<lambda>k. real k) = Inr (d2, s2) \<and>
     d1 \<noteq> d2 \<and>
     process_data d1 0 = Inr (0, frequency, amplitude, complexity) \<and>
     process_data d2 0 = Inr (0, frequency, amplitude, complexity)"
proof -
  obtain d1 s1 where g1: "generate_sample_data 0 (\<lambda>k. real k) = Inr (d1, s1)"
    by (simp add: generate_sample_data_eq)
  obtain d2 s2 where g2: "generate_sample_data 365 (\<lambda>k. real k) = Inr (d2, s2)"
    by (simp add: generate_sample_data_eq)
  have "date (d1 ! 0) = 0" using g1
    by (auto simp: generate_sample_data_eq upt_conv_Cons simp del: upt_Suc)
  moreover have "date (d2 ! 0) = 365" using g2
    by (auto simp: generate_sample_data_eq upt_conv_Cons simp del: upt_Suc)
  ultimately have "d1 \<noteq> d2" by auto
  with same_seed_same_parameters [OF g1 g2] g1 g2 show ?thesis by blast
qed

subsection \<open>The export fallback of \<open>main\<close>\<close>

text \<open>
  C3. Once \<open>main\<close> reaches the export (the directory, the visualizer and the
  animation were made): if the MP4 save raises an exception (an instance of
  \<open>Exception\<close>, what the handler catches), the GIF save is attempted exactly once; if
  that raises too, the error is printed, nothing escapes the \<open>try\<close>, and \<open>main\<close>
  goes on to \<open>plt.show()\<close>; if the MP4 save succeeds, the GIF save is never attempted.
\<close>

theorem export_fallback:
  assumes "makedirs env = None" and "construct env = None" and "create_animation env = None"
  shows "(save env FFMpeg = Some (Exception m) \<longrightarrow>
            count_list (fst (main env)) (Save Pillow) = 1) \<and>
         (save env FFMpeg = Some (Exception m) \<and> save env Pillow = Some (Exception m2) \<longrightarrow>
            main env =
              ([Makedirs, Construct, CreateAnimation, Print SavingMP4, Save FFMpeg,
                Print (CannotSaveMP4 m), Print TryingGIF, Save Pillow, Print (CannotSaveGIF m2),
                Print Showing, Show], show_window env)) \<and>
         (save env FFMpeg = None \<longrightarrow>
            count_list (fst (main env)) (Save Pillow) = 0 \<and> Show \<in> set (fst (main env)))"
  using assms
  by (auto simp: main_def and_then_def call_def try_save_def split: option.splits exn.splits)

theorem export_fallback_witness:
  "main \<lparr>makedirs = None, construct = None, create_animation = None,
         save = (\<lambda>w. Some (Exception (if w = FFMpeg then ''no ffmpeg'' else ''no pillow''))),
         show_window = None\<rparr> =
     ([Makedirs, Construct, CreateAnimation, Print SavingMP4, Save FFMpeg,
       Print (CannotSaveMP4 ''no ffmpeg''), Print TryingGIF, Save Pillow,
       Print (CannotSaveGIF ''no pillow''), Print Showing, Show], None)
   \<and> count_list (fst (main \<lparr>makedirs = None, construct = None, create_animation = None,
         save = (\<lambda>w. Some (Exception (if w = FFMpeg then ''no ffmpeg'' else ''no pillow''))),
         show_window = None\<rparr>)) (Save Pillow) = 1
   \<and> count_list (fst (main \<lparr>makedirs = None, construct = None, create_animation = None,
         save = (\<lambda>w. None), show_window = None\<rparr>)) (Save Pillow) = 0"
  using export_fallback [of "\<lparr>makedirs = None, construct = None, create_animation = None,
         save = (\<lambda>w. Some (Exception (if w = FFMpeg then ''no ffmpeg'' else ''no pillow''))),
         show_window = None\<rparr>" "''no ffmpeg''" "''no pillow''"]
    export_fallback [of "\<lparr>makedirs = None, construct = None, create_animation = None,
         save = (\<lambda>w. None), show_window = None\<rparr>" "''x''" "''y''"]
  by simp

subsection \<open>The waveform synthesizer\<close>

lemma harmonic_indices_eq: "harmonic_indices complexity = [1..\<lfloor>complexity\<rfloor>]"
proof (cases "0 \<le> complexity")
  case True
  then show ?thesis by (simp add: harmonic_indices_def py_range_def py_int_def)
next
  case False
  then have "\<lceil>complexity\<rceil> \<le> 0" "\<lfloor>complexity\<rfloor> < 1"
    by (simp_all add: ceiling_le_iff floor_less_iff)
  with False show ?thesis by (simp add: harmonic_indices_def py_range_def py_int_def)
qed




lemma map2_np_add_Finite:
  "map2 np_add (map (\<lambda>xk. Finite (g xk)) x) (map (\<lambda>xk. Finite (h xk)) x) =
     map (\<lambda>xk. Finite (g xk + h xk)) x"
  by (simp add: zip_map_map zip_same_conv_map np_add_def)

lemma harmonic_Finite:
  "harmonic (Finite f) a l x i =
     map (\<lambda>xk. Finite (harmonic_amp a i * sin (f * (real_of_int i + 0.5) * xk + phase_shift l i))) x"
  by (simp add: harmonic_def harmonic_freq_def np_mul_def np_add_def)

lemma foldl_harmonic:
  "foldl (\<lambda>y i. map2 np_add y (harmonic (Finite f) a l x i)) (map (\<lambda>xk. Finite (g xk)) x) js =
     map (\<lambda>xk. Finite (g xk +
       (\<Sum>i\<leftarrow>js. harmonic_amp a i * sin (f * (real_of_int i + 0.5) * xk + phase_shift l i)))) x"
proof (induction js arbitrary: g)
  case Nil
  show ?case by simp
next
  case (Cons j js)
  have "foldl (\<lambda>y i. map2 np_add y (harmonic (Finite f) a l x i)) (map (\<lambda>xk. Finite (g xk)) x) (j # js) =
        foldl (\<lambda>y i. map2 np_add y (harmonic (Finite f) a l x i))
          (map (\<lambda>xk. Finite (g xk + harmonic_amp a j * sin (f * (real_of_int j + 0.5) * xk + phase_shift l j))) x) js"
    by (simp only: foldl_Cons harmonic_Finite map2_np_add_Finite)
  also have "\<dots> = map (\<lambda>xk. Finite ((g xk + harmonic_amp a j * sin (f * (real_of_int j + 0.5) * xk + phase_shift l j)) +
       (\<Sum>i\<leftarrow>js. harmonic_amp a i * sin (f * (real_of_int i + 0.5) * xk + phase_shift l i)))) x"
    by (rule Cons.IH)
  also have "\<dots> = map (\<lambda>xk. Finite (g xk +
       (\<Sum>i\<leftarrow>j # js. harmonic_amp a i * sin (f * (real_of_int i + 0.5) * xk + phase_shift l i)))) x"
    by (simp add: add.assoc)
  finally show ?case .
qed

lemma linspace_nth: "k < n \<Longrightarrow> 1 < n \<Longrightarrow> linspace a b n ! k = a + real k * ((b - a) / real (n - 1))"
  by (simp add: linspace_def)

text \<open>
  C6, as the code has it. For a finite frequency and \<open>complexity \<ge> 0\<close>, sample \<open>k\<close>
  of the waveform is the base term \<open>amplitude * sin (frequency * x + line_offset)\<close>
  with \<open>line_offset = line_idx * pi / 2\<close>, plus the noise, plus one term for every
  \<open>i = 1 .. floor(complexity)\<close>: its amplitude is the base amplitude divided by
  \<open>2 * i\<close>, its frequency the base frequency multiplied by \<open>i + 1/2\<close>, and its phase
  \<open>line_idx * pi / (i + 1)\<close>, that is \<open>2 * line_offset / (i + 1)\<close>.
\<close>

theorem harmonic_terms:
  assumes "0 \<le> complexity"
  shows "generate_waveform (Finite frequency) amplitude complexity line_idx s =
     Inr ((linspace 0 10 1000,
           map (\<lambda>k. Finite
                  (amplitude * sin (frequency * (linspace 0 10 1000 ! k) + real line_idx * pi / 2) +
                   (\<Sum>i\<leftarrow>[1..\<lfloor>complexity\<rfloor>].
                       amplitude / (2 * real_of_int i) *
                       sin (frequency * (real_of_int i + 1 / 2) * (linspace 0 10 1000 ! k) +
                            2 * (real line_idx * pi / 2) / (real_of_int i + 1))) +
                   0.05 * complexity * s k))
               [0..<1000]),
          \<lambda>k. s (k + 1000))"
proof -
  let ?X = "\<lambda>k. real k * (10 / 999)"
  let ?G = "\<lambda>xk. amplitude * sin (frequency * xk + real line_idx * pi / 2) +
              (\<Sum>i\<leftarrow>harmonic_indices complexity.
                  harmonic_amp amplitude i *
                  sin (frequency * (real_of_int i + 0.5) * xk + phase_shift line_idx i))"
  have x: "linspace 0 10 1000 = map ?X [0..<1000]"
    by (simp add: linspace_def)
  have len: "length (linspace 0 10 1000) = 1000"
    by (simp add: linspace_def)
  have y0: "map (\<lambda>xk. np_mul (Finite amplitude)
                    (np_sin (np_add (np_mul (Finite frequency) (Finite xk))
                                    (Finite (real line_idx * pi / 2))))) (linspace 0 10 1000) =
            map (\<lambda>xk. Finite (amplitude * sin (frequency * xk + real line_idx * pi / 2))) (linspace 0 10 1000)"
    by (simp add: np_mul_def np_add_def)
  have y: "foldl (\<lambda>y i. map2 np_add y (harmonic (Finite frequency) amplitude line_idx (linspace 0 10 1000) i))
             (map (\<lambda>xk. Finite (amplitude * sin (frequency * xk + real line_idx * pi / 2))) (linspace 0 10 1000))
             (harmonic_indices complexity) =
           map (\<lambda>xk. Finite (?G xk)) (linspace 0 10 1000)"
    by (rule foldl_harmonic)
  have yk: "map (\<lambda>xk. Finite (?G xk)) (linspace 0 10 1000) = map (\<lambda>k. Finite (?G (?X k))) [0..<1000]"
    by (simp only: x map_map comp_def)
  from assms have sc: "\<not> 0.05 * complexity < 0" by simp
  have nz: "normal 0 (0.05 * complexity) (length (linspace 0 10 1000)) s =
              Inr (map (\<lambda>k. 0.05 * complexity * s k) [0..<1000], \<lambda>k. s (k + 1000))"
    using sc by (simp add: normal_def len del: upt_Suc)
  have fin: "map Finite (map (\<lambda>k. 0.05 * complexity * s k) [0..<1000]) =
               map (\<lambda>k. Finite (0.05 * complexity * s k)) [0..<1000]"
    by (simp add: comp_def del: upt_Suc)
  have gw: "generate_waveform (Finite frequency) amplitude complexity line_idx s =
     Inr ((linspace 0 10 1000,
           map (\<lambda>k. Finite (?G (?X k) + 0.05 * complexity * s k)) [0..<1000]),
          \<lambda>k. s (k + 1000))"
    unfolding generate_waveform_def Let_def y0 y nz
    by (simp only: sum.case prod.case yk fin map2_np_add_Finite)
  have terms: "harmonic_amp amplitude i * sin (frequency * (real_of_int i + 0.5) * xk + phase_shift line_idx i) =
               amplitude / (2 * real_of_int i) *
                 sin (frequency * (real_of_int i + 1 / 2) * xk +
                      2 * (real line_idx * pi / 2) / (real_of_int i + 1))" for i xk
    by (simp add: harmonic_amp_def phase_shift_def mult.commute)
  have "map (\<lambda>k. Finite (?G (?X k) + 0.05 * complexity * s k)) [0..<1000] =
        map (\<lambda>k. Finite
                  (amplitude * sin (frequency * (linspace 0 10 1000 ! k) + real line_idx * pi / 2) +
                   (\<Sum>i\<leftarrow>[1..\<lfloor>complexity\<rfloor>].
                       amplitude / (2 * real_of_int i) *
                       sin (frequency * (real_of_int i + 1 / 2) * (linspace 0 10 1000 ! k) +
                            2 * (real line_idx * pi / 2) / (real_of_int i + 1))) +
                   0.05 * complexity * s k))
               [0..<1000]"
  proof (rule map_cong [OF refl])
    fix k assume "k \<in> set [0..<1000]"
    then have k: "k < 1000" by simp
    then have xk: "linspace 0 10 1000 ! k = ?X k" by (simp add: linspace_nth)
    show "Finite (?G (?X k) + 0.05 * complexity * s k) =
          Finite (amplitude * sin (frequency * (linspace 0 10 1000 ! k) + real line_idx * pi / 2) +
                   (\<Sum>i\<leftarrow>[1..\<lfloor>complexity\<rfloor>].
                       amplitude / (2 * real_of_int i) *
                       sin (frequency * (real_of_int i + 1 / 2) * (linspace 0 10 1000 ! k) +
                            2 * (real line_idx * pi / 2) / (real_of_int i + 1))) +
                   0.05 * complexity * s k)"
      unfolding xk harmonic_indices_eq terms ..
  qed
  with gw show ?thesis by (simp only:)
qed

theorem harmonic_terms_witness:
  "\<exists>x y s'. generate_waveform (Finite 1) 1 1 2 (\<lambda>k. 0) = Inr ((x, y), s') \<and>
      x ! 0 = 0 \<and> y ! 0 = Finite 0"
proof -
  have fl: "\<lfloor>1 :: real\<rfloor> = 1" by simp
  have z: "[0..<1000] ! 0 = 0" by (simp del: upt_Suc)
  have x0: "linspace 0 10 1000 ! 0 = 0" by (simp add: linspace_nth)
  have "map (\<lambda>k. Finite
                  (1 * sin (1 * (linspace 0 10 1000 ! k) + real 2 * pi / 2) +
                   (\<Sum>i\<leftarrow>[1..\<lfloor>1 :: real\<rfloor>].
                       1 / (2 * real_of_int i) *
                       sin (1 * (real_of_int i + 1 / 2) * (linspace 0 10 1000 ! k) +
                            2 * (real 2 * pi / 2) / (real_of_int i + 1))) +
                   0.05 * 1 * 0))
               [0..<1000] ! 0 = Finite 0"
    by (simp add: x0 upto_rec1 del: upt_Suc)
  with harmonic_terms [of 1 1 1 2 "\<lambda>k. 0"] x0 show ?thesis
    by simp
qed

text \<open>
  C6, as the claim states it, fails: at \<open>i = 2\<close> the harmonic's amplitude is not the
  base amplitude over \<open>i\<close>, its frequency is not the base frequency over \<open>i\<close>, and
  (on line 1) its phase is not \<open>line_offset / (i + 1)\<close>.
\<close>

theorem harmonic_scaling_counterexample:
  "harmonic_amp 1 2 \<noteq> 1 / 2 \<and>
   harmonic_freq (Finite 1) 2 \<noteq> Finite (1 / 2) \<and>
   phase_shift 1 2 \<noteq> (real 1 * pi / 2) / (2 + 1)"
  by (simp add: harmonic_amp_def harmonic_freq_def phase_shift_def np_mul_def)

subsection \<open>Min-max normalization of the temperature\<close>

lemma series_min_max_Finite:
  "d \<noteq> [] \<Longrightarrow> series_min (map temperature d) = Finite (Min (set (map temperature d))) \<and>
               series_max (map temperature d) = Finite (Max (set (map temperature d)))"
  by (simp add: series_min_def series_max_def)

lemma Min_le_Max_member:
  "x \<in> set xs \<Longrightarrow> Min (set xs) \<le> x \<and> x \<le> Max (set xs)"
  by simp

lemma generated_first_last:
  assumes "generate_sample_data now s = Inr (d, s')"
  shows "temperature (d ! 0) = 20 + s 0" and "temperature (d ! 29) = 20 + s 29"
    and "humidity (d ! 0) = 60 + 15 * sin 0.5 + 3 * s 30"
proof -
  have "[0..<30] ! 0 = 0" "[0..<30] ! 29 = 29" by (simp_all del: upt_Suc)
  then show "temperature (d ! 0) = 20 + s 0" and "temperature (d ! 29) = 20 + s 29"
    and "humidity (d ! 0) = 60 + 15 * sin 0.5 + 3 * s 30"
    using assms by (auto simp: generate_sample_data_eq nth_map simp del: upt_Suc)
qed

lemma generated_nondegenerate:
  assumes "generate_sample_data now s = Inr (d, s')" and "s 29 < s 0"
  shows "\<exists>temp_min temp_max. series_min (map temperature d) = Finite temp_min \<and>
           series_max (map temperature d) = Finite temp_max \<and> temp_min < temp_max"
proof -
  from assms(1) have len: "length d = 30" by (rule generate_sample_data_length)
  then have ne: "d \<noteq> []" by auto
  from len have "temperature (d ! 0) \<in> set (map temperature d)" "temperature (d ! 29) \<in> set (map temperature d)"
    by simp_all
  then have "Min (set (map temperature d)) \<le> temperature (d ! 29)"
    "temperature (d ! 0) \<le> Max (set (map temperature d))"
    using Min_le_Max_member by blast+
  with assms generated_first_last [OF assms(1)]
  have "Min (set (map temperature d)) < Max (set (map temperature d))" by linarith
  with series_min_max_Finite [OF ne] show ?thesis by blast
qed

lemma normalized_bounds:
  fixes t :: real
  assumes "lo < hi" "lo \<le> t" "t \<le> hi"
  shows "0 \<le> (t - lo) / (hi - lo)" "(t - lo) / (hi - lo) \<le> 1"
  using assms by (simp_all add: divide_le_eq)

text \<open>What \<open>norm_temp\<close> and \<open>process_data\<close> return on a non-empty, non-degenerate frame.\<close>

lemma nondegenerate_frame:
  assumes ne: "d \<noteq> []"
      and mn: "series_min (map temperature d) = Finite temp_min"
      and mx: "series_max (map temperature d) = Finite temp_max"
      and lt: "temp_min < temp_max"
  shows "norm_temp d (frame mod int (length d)) =
           Inr (Finite ((temperature (d ! nat (frame mod int (length d))) - temp_min) / (temp_max - temp_min)))"
    and "process_data d frame =
           Inr (frame mod int (length d),
                Finite (0.5 + 1.5 * ((temperature (d ! nat (frame mod int (length d))) - temp_min) / (temp_max - temp_min))),
                0.5 + humidity (d ! nat (frame mod int (length d))) / 100,
                1 + wind_speed (d ! nat (frame mod int (length d))) / 5)"
    and "0 \<le> (temperature (d ! nat (frame mod int (length d))) - temp_min) / (temp_max - temp_min)"
    and "(temperature (d ! nat (frame mod int (length d))) - temp_min) / (temp_max - temp_min) \<le> 1"
proof -
  let ?idx = "frame mod int (length d)"
  from ne have pos: "0 < int (length d)" by simp
  then have lo: "0 \<le> ?idx" and hi: "?idx < int (length d)" by simp_all
  then have n: "nat ?idx < length d" by linarith
  from lt have nz: "temp_max - temp_min \<noteq> 0" by simp
  show "norm_temp d ?idx = Inr (Finite ((temperature (d ! nat ?idx) - temp_min) / (temp_max - temp_min)))"
    using lo hi n nz by (simp add: norm_temp_def iloc_def mn mx np_sub_def)
  show "process_data d frame =
           Inr (?idx, Finite (0.5 + 1.5 * ((temperature (d ! nat ?idx) - temp_min) / (temp_max - temp_min))),
                0.5 + humidity (d ! nat ?idx) / 100, 1 + wind_speed (d ! nat ?idx) / 5)"
    using nz by (simp add: process_data_eq [OF ne] mn mx np_sub_def np_mul_def np_add_def)
  from n have "temperature (d ! nat ?idx) \<in> set (map temperature d)" by simp
  then have "Min (set (map temperature d)) \<le> temperature (d ! nat ?idx)"
    "temperature (d ! nat ?idx) \<le> Max (set (map temperature d))"
    using Min_le_Max_member by blast+
  moreover from series_min_max_Finite [OF ne] mn mx
  have "temp_min = Min (set (map temperature d))" "temp_max = Max (set (map temperature d))" by simp_all
  ultimately have b: "temp_min \<le> temperature (d ! nat ?idx)" "temperature (d ! nat ?idx) \<le> temp_max"
    by simp_all
  from normalized_bounds [OF lt b]
  show "0 \<le> (temperature (d ! nat ?idx) - temp_min) / (temp_max - temp_min)"
    and "(temperature (d ! nat ?idx) - temp_min) / (temp_max - temp_min) \<le> 1" .
qed




text \<open>
  C8. On a generated series with least temperature \<open>temp_min\<close> and greatest
  \<open>temp_max\<close>: if \<open>temp_max > temp_min\<close>, then for every frame the normalized
  temperature \<open>norm_temp\<close> that \<open>update\<close> colours the lines with is the finite quotient
  \<open>(temp - temp_min) / (temp_max - temp_min)\<close>, it lies in \<open>[0, 1]\<close>, and the frequency
  of \<open>process_data\<close> is \<open>0.5 + 1.5\<close> times it. The divisor is never negative, and when
  it is zero every temperature of the series equals \<open>temp_min\<close> (and the quotient is not
  a finite number). The witness has a series of either kind.
\<close>

theorem normalized_temperature_range:
  assumes "generate_sample_data now s = Inr (d, s')"
      and "series_min (map temperature d) = Finite temp_min"
      and "series_max (map temperature d) = Finite temp_max"
  shows "(temp_min < temp_max \<longrightarrow>
            (\<exists>n. norm_temp d (frame mod 30) = Inr (Finite n) \<and>
                 n = (temperature (d ! nat (frame mod 30)) - temp_min) / (temp_max - temp_min) \<and>
                 0 \<le> n \<and> n \<le> 1 \<and>
                 (\<exists>amplitude complexity.
                    process_data d frame = Inr (frame mod 30, Finite (0.5 + 1.5 * n), amplitude, complexity)))) \<and>
         (temp_max - temp_min = 0 \<longrightarrow>
            (\<forall>r \<in> set d. temperature r = temp_min) \<and>
            norm_temp d (frame mod 30) = Inr NonFinite) \<and>
         temp_min \<le> temp_max"
proof -
  from assms(1) have len: "length d = 30" by (rule generate_sample_data_length)
  then have ne: "d \<noteq> []" by auto
  from series_min_max_Finite [OF ne] assms(2,3)
  have mm: "temp_min = Min (set (map temperature d))" "temp_max = Max (set (map temperature d))"
    by simp_all
  have mem: "temp_min \<le> temperature r \<and> temperature r \<le> temp_max" if "r \<in> set d" for r
  proof -
    from that have "temperature r \<in> set (map temperature d)" by simp
    from Min_le_Max_member [OF this] show ?thesis by (simp only: mm)
  qed
  have a: "temp_min < temp_max \<longrightarrow>
            (\<exists>n. norm_temp d (frame mod 30) = Inr (Finite n) \<and>
                 n = (temperature (d ! nat (frame mod 30)) - temp_min) / (temp_max - temp_min) \<and>
                 0 \<le> n \<and> n \<le> 1 \<and>
                 (\<exists>amplitude complexity.
                    process_data d frame = Inr (frame mod 30, Finite (0.5 + 1.5 * n), amplitude, complexity)))"
  proof
    assume lt: "temp_min < temp_max"
    from len have i: "int (length d) = 30" by simp
    note nf = nondegenerate_frame [OF ne assms(2) assms(3) lt, of frame, unfolded i]
    from nf(2) have "\<exists>amplitude complexity. process_data d frame =
        Inr (frame mod 30,
             Finite (0.5 + 1.5 * ((temperature (d ! nat (frame mod 30)) - temp_min) / (temp_max - temp_min))),
             amplitude, complexity)"
      by blast
    with nf(1) nf(3) nf(4)
    show "\<exists>n. norm_temp d (frame mod 30) = Inr (Finite n) \<and>
                 n = (temperature (d ! nat (frame mod 30)) - temp_min) / (temp_max - temp_min) \<and>
                 0 \<le> n \<and> n \<le> 1 \<and>
                 (\<exists>amplitude complexity.
                    process_data d frame = Inr (frame mod 30, Finite (0.5 + 1.5 * n), amplitude, complexity))"
      by blast
  qed
  have b: "temp_max - temp_min = 0 \<longrightarrow>
            (\<forall>r \<in> set d. temperature r = temp_min) \<and>
            norm_temp d (frame mod 30) = Inr NonFinite"
  proof
    assume z: "temp_max - temp_min = 0"
    have "temperature r = temp_min" if "r \<in> set d" for r
      using mem [OF that] z by simp
    moreover have "norm_temp d (frame mod 30) = Inr NonFinite"
    proof -
      have "0 \<le> frame mod 30" "frame mod 30 < int (length d)" using len by simp_all
      then show ?thesis using z
        by (simp add: norm_temp_def iloc_def assms(2) assms(3) np_sub_def)
    qed
    ultimately show "(\<forall>r \<in> set d. temperature r = temp_min) \<and> norm_temp d (frame mod 30) = Inr NonFinite"
      by blast
  qed
  from ne have "hd d \<in> set d" by simp
  from mem [OF this] have c: "temp_min \<le> temp_max" by simp
  from a b c show ?thesis by blast
qed

lemma generated_degenerate:
  assumes "generate_sample_data now (\<lambda>k. - 5 * sin (real k * (2 * pi / 29))) = Inr (d, s')"
  shows "series_min (map temperature d) = Finite 20" and "series_max (map temperature d) = Finite 20"
proof -
  from assms have "map temperature d = map (\<lambda>i. 20) [0..<30]"
    by (auto simp: generate_sample_data_eq comp_def simp del: upt_Suc)
  then have "set (map temperature d) = {20}" "map temperature d \<noteq> []"
    by (simp_all add: image_constant_conv del: upt_Suc)
  then show "series_min (map temperature d) = Finite 20" and "series_max (map temperature d) = Finite 20"
    by (simp_all add: series_min_def series_max_def)
qed

theorem normalized_temperature_range_witness:
  "(\<exists>d s' temp_min temp_max n.
      generate_sample_data 0 (\<lambda>k. if k = 0 then 1 else 0) = Inr (d, s') \<and>
      series_min (map temperature d) = Finite temp_min \<and>
      series_max (map temperature d) = Finite temp_max \<and>
      temp_min < temp_max \<and>
      norm_temp d 4 = Inr (Finite n) \<and> 0 \<le> n \<and> n \<le> 1) \<and>
   (\<exists>d s'.
      generate_sample_data 0 (\<lambda>k. - 5 * sin (real k * (2 * pi / 29))) = Inr (d, s') \<and>
      series_min (map temperature d) = Finite 20 \<and>
      series_max (map temperature d) = Finite 20 \<and>
      temperature (hd d) = 20 \<and>
      norm_temp d 4 = Inr NonFinite)"
proof
  obtain d s' where g: "generate_sample_data 0 (\<lambda>k. if k = 0 then 1 else 0) = Inr (d, s')"
    by (simp add: generate_sample_data_eq)
  have "(\<lambda>k. if k = 0 then 1 else 0 :: real) (29 :: nat) < (\<lambda>k. if k = 0 then 1 else 0) (0 :: nat)" by simp
  from generated_nondegenerate [OF g this]
  obtain temp_min temp_max where mm: "series_min (map temperature d) = Finite temp_min"
    "series_max (map temperature d) = Finite temp_max" "temp_min < temp_max" by blast
  from normalized_temperature_range [OF g mm(1) mm(2), of 34] mm(3)
  obtain n where "norm_temp d 4 = Inr (Finite n)" "0 \<le> n" "n \<le> 1" by auto
  with g mm show "\<exists>d s' temp_min temp_max n.
      generate_sample_data 0 (\<lambda>k. if k = 0 then 1 else 0) = Inr (d, s') \<and>
      series_min (map temperature d) = Finite temp_min \<and>
      series_max (map temperature d) = Finite temp_max \<and>
      temp_min < temp_max \<and>
      norm_temp d 4 = Inr (Finite n) \<and> 0 \<le> n \<and> n \<le> 1" by blast
next
  obtain d s' where g: "generate_sample_data 0 (\<lambda>k. - 5 * sin (real k * (2 * pi / 29))) = Inr (d, s')"
    by (simp add: generate_sample_data_eq)
  note mm = generated_degenerate [OF g]
  from g have "length d = 30" by (rule generate_sample_data_length)
  then have "d \<noteq> []" by auto
  then have "hd d \<in> set d" by simp
  with normalized_temperature_range [OF g mm, of 4]
  have "temperature (hd d) = 20" "norm_temp d 4 = Inr NonFinite" by simp_all
  with g mm show "\<exists>d s'.
      generate_sample_data 0 (\<lambda>k. - 5 * sin (real k * (2 * pi / 29))) = Inr (d, s') \<and>
      series_min (map temperature d) = Finite 20 \<and>
      series_max (map temperature d) = Finite 20 \<and>
      temperature (hd d) = 20 \<and>
      norm_temp d 4 = Inr NonFinite" by blast
qed

subsection \<open>The frame callback \<open>update\<close>\<close>






end
